theory Spec2Isabelle
  imports Complex_Main
begin

section \<open>check-efy: a shallow embedding of \<open>check_efy.py\<close>\<close>

text \<open>
  The script polls a web page for free seats in one session and texts a list of
  recipients when seats are free. Its library calls (HTTP fetch and HTML parsing, the
  random generator, the SMS client, the file system, \<open>time.sleep\<close>) are inputs of the
  model; everything the script itself computes is a HOL function of those inputs.
  Every function that logs, prints, sleeps or sends returns the list of events it
  produced, in order, together with its result; a raised exception is \<open>Inl\<close>.
\<close>

subsection \<open>Python values, exceptions and events\<close>

text \<open>
  Strings are lists of 8-bit characters, read as the code points below 256. In that
  range the decimal digits are exactly \<open>0\<close>..\<open>9\<close>. \<open>URLError e\<close> is \<open>urllib\<close>'s error with
  the reason \<open>e\<close>; it is not a subclass of the exception it wraps.
\<close>

datatype exn =
    ConnectionResetError
  | URLError exn
  | IndexError
  | TypeError
  | ValueError string
  | OverflowError
  | UnboundLocalError
  | KeyboardInterrupt
  | OtherError string

datatype pyval = PInt int | PStr string | PTuple "pyval list"

datatype level = INFO | WARNING | ERROR

datatype event =
    Logged level string "string list"
  | Printed string
  | Slept nat
  | Sent pyval "string list" string

subsection \<open>Module constants\<close>

definition ERROR_LOG_FILENAME :: string where
  "ERROR_LOG_FILENAME = ''check-efy.log''"

definition SESSION_ID :: string where
  "SESSION_ID = ''UT Provo 04B''"

definition MSG_UNAVAILABLE :: string where
  "MSG_UNAVAILABLE = ''%s. No spots left for %s on %s''"

definition MSG_AVAILABLE :: string where
  "MSG_AVAILABLE = ''%s spots left for %s on %s''"

definition MSG_TEXT_MESSAGE :: string where
  "MSG_TEXT_MESSAGE = ''%s spots availible for session %s at efy.'' @
                      ''Click here https://efy.byu.edu/efy_session/10091862.''"

definition MSG_RECIPIENT_ERR :: string where
  "MSG_RECIPIENT_ERR = ''Invalid recipient number %s'' @
                       ''. Recipient should be formatted with a '' @ [CHR 0x27] @ ''+'' @ [CHR 0x27] @ '' '' @
                       ''and country code e.g., +16175551212 (E.164 format).''"

subsection \<open>Built-ins: \<open>str\<close>, \<open>%\<close> and list indexing\<close>

fun str_nat :: "nat \<Rightarrow> string" where
  "str_nat n = (if n < 10 then [''0123456789'' ! n]
                else str_nat (n div 10) @ [''0123456789'' ! (n mod 10)])"

declare str_nat.simps [simp del]

definition str_int :: "int \<Rightarrow> string" where
  "str_int i = (if i < 0 then CHR ''-'' # str_nat (nat (- i)) else str_nat (nat i))"

text \<open>\<open>str(v)\<close> for the values the script applies it to: a string is itself.\<close>

fun py_str :: "pyval \<Rightarrow> string" where
  "py_str (PStr s) = s"
| "py_str (PInt i) = str_int i"
| "py_str (PTuple vs) = ''(...)''"

text \<open>
  \<open>fmt % args\<close> with the \<open>%s\<close> conversion, the only one in the script's format strings.
  Too few arguments raise \<open>TypeError\<close> (not enough arguments for format string), and so
  do arguments left over (not all arguments converted); another conversion character
  is outside the model and reported as \<open>ValueError\<close>. A single string operand, as in
  \<open>fmt % s\<close>, is the one-element argument list.
\<close>

fun py_format :: "string \<Rightarrow> string list \<Rightarrow> exn + string" where
  "py_format [] args = (if args = [] then Inr [] else Inl TypeError)"
| "py_format [c] args =
     (if c = CHR ''%'' then Inl (ValueError ''incomplete format'')
      else if args = [] then Inr [c] else Inl TypeError)"
| "py_format (c # d # fmt) args =
     (if c = CHR ''%'' then
        (if d = CHR ''s'' then
           (case args of
              [] \<Rightarrow> Inl TypeError
            | a # rest \<Rightarrow>
                (case py_format fmt rest of Inl e \<Rightarrow> Inl e | Inr out \<Rightarrow> Inr (a @ out)))
         else Inl (ValueError ''unsupported format character''))
      else (case py_format (d # fmt) args of Inl e \<Rightarrow> Inl e | Inr out \<Rightarrow> Inr (c # out)))"

text \<open>\<open>xs[i]\<close> for a literal index \<open>i \<ge> 0\<close>: out of range raises \<open>IndexError\<close>.\<close>

definition py_index :: "'a list \<Rightarrow> nat \<Rightarrow> exn + 'a" where
  "py_index xs i = (if i < length xs then Inr (xs ! i) else Inl IndexError)"

subsection \<open>\<open>validate_e164\<close>\<close>

text \<open>
  \<open>re.match(r"^\+[1-9]\d{1,14}$", recipient)\<close>, component by component. Without the
  \<open>MULTILINE\<close> flag, \<open>$\<close> matches at the end of the string and also just before a newline
  that is the last character of the string.
\<close>

definition is_digit :: "char \<Rightarrow> bool" where
  "is_digit c = (c \<in> set ''0123456789'')"

definition is_1_9 :: "char \<Rightarrow> bool" where
  "is_1_9 c = (c \<in> set ''123456789'')"

definition at_dollar :: "string \<Rightarrow> bool" where
  "at_dollar rest = (rest = [] \<or> rest = [CHR 0x0A])"

text \<open>\<open>\d{lo,hi}$\<close> on the rest of the string: between \<open>lo\<close> and \<open>hi\<close> digits, then \<open>$\<close>.\<close>

fun digits_dollar :: "nat \<Rightarrow> nat \<Rightarrow> string \<Rightarrow> bool" where
  "digits_dollar lo hi [] = (lo = 0)"
| "digits_dollar lo hi (c # cs) =
     ((lo = 0 \<and> at_dollar (c # cs)) \<or>
      (0 < hi \<and> is_digit c \<and> digits_dollar (lo - 1) (hi - 1) cs))"

definition re_match_e164 :: "string \<Rightarrow> bool" where
  "re_match_e164 s =
     (case s of
        p # d # rest \<Rightarrow> p = CHR ''+'' \<and> is_1_9 d \<and> digits_dollar 1 14 rest
      | _ \<Rightarrow> False)"

fun validate_e164 :: "string list \<Rightarrow> exn + unit" where
  "validate_e164 [] = Inr ()"
| "validate_e164 (recipient # recipients) =
     (if re_match_e164 recipient then validate_e164 recipients
      else (case py_format MSG_RECIPIENT_ERR [recipient] of
              Inl e \<Rightarrow> Inl e
            | Inr m \<Rightarrow> Inl (ValueError m)))"

text \<open>
  The format the documentation string names (E.164): a leading \<open>+\<close>, a nonzero first
  digit, 2 to 15 digits in all, and nothing else.
\<close>

definition e164_shape :: "string \<Rightarrow> bool" where
  "e164_shape s =
     (case s of
        p # d # ds \<Rightarrow> p = CHR ''+'' \<and> is_1_9 d \<and> 1 \<le> length ds \<and> length ds \<le> 14 \<and> list_all is_digit ds
      | _ \<Rightarrow> False)"

subsection \<open>\<open>setup_logger\<close>\<close>

text \<open>
  The file system is an input: \<open>os.path.abspath\<close>, \<open>os.path.dirname\<close>, \<open>os.path.isfile\<close>
  and \<open>os.access(_, os.W_OK)\<close>. The local variable \<open>err_handler\<close> is an option: \<open>None\<close>
  while it is unbound, and reading it unbound raises \<open>UnboundLocalError\<close>.
\<close>

record os_env =
  os_abspath :: "string \<Rightarrow> string"
  os_dirname :: "string \<Rightarrow> string"
  os_isfile :: "string \<Rightarrow> bool"
  os_access_W_OK :: "string \<Rightarrow> bool"

record file_handler =
  fh_path :: string
  fh_level :: level

record root_logger =
  rl_handlers :: "file_handler list"
  rl_level :: level

definition setup_logger :: "os_env \<Rightarrow> string option \<Rightarrow> bool \<Rightarrow> exn + root_logger" where
  "setup_logger os log_file verbose =
     (let err_log_path = (case log_file of
                            None \<Rightarrow> os_abspath os ERROR_LOG_FILENAME
                          | Some f \<Rightarrow> os_abspath os f);
          err_path_exists = os_isfile os err_log_path;
          err_dir = os_dirname os err_log_path;
          err_handler =
            (if (err_path_exists \<and> os_access_W_OK os err_log_path) \<or>
                (\<not> err_path_exists \<and> os_access_W_OK os err_dir)
             then Some \<lparr>fh_path = err_log_path,
                        fh_level = (if verbose then INFO else WARNING)\<rparr>
             else None)
      in case err_handler of
           None \<Rightarrow> Inl UnboundLocalError
         | Some h \<Rightarrow> Inr \<lparr>rl_handlers = [h], rl_level = INFO\<rparr>)"

subsection \<open>\<open>isSiteAvailable\<close>\<close>

text \<open>
  The page is an input: what lines 89 to 93 (\<open>urlopen\<close> up to \<open>find_all('tr')\<close>) give, either
  an exception or the rows of the table body, each row being the list \<open>cols\<close> as line 97
  leaves it, the texts of its \<open>td\<close> cells with surrounding whitespace stripped. A cell of
  a row is an element of that list. The function returns a pair, or \<open>None\<close> when the
  loop over the rows ends without a \<open>return\<close>; the only exception it handles is
  \<open>ConnectionResetError\<close>. A connection reset reaches the function in two forms: while
  the response is read it is a \<open>ConnectionResetError\<close>; while \<open>urlopen\<close> connects or sends
  the request, \<open>urlopen\<close> raises it again as \<open>URLError ConnectionResetError\<close>.
\<close>

type_synonym page = "exn + string list list"

type_synonym availability = "(pyval \<times> bool) option"

fun scan_rows :: "string \<Rightarrow> string list list \<Rightarrow> event list \<times> (exn + availability)" where
  "scan_rows session_id [] = ([], Inr None)"
| "scan_rows session_id (cols # rows) =
     (case py_index cols 0 of
        Inl e \<Rightarrow> ([], Inl e)
      | Inr c_session_id \<Rightarrow>
     (case py_index cols 1 of
        Inl e \<Rightarrow> ([], Inl e)
      | Inr c_session_date \<Rightarrow>
     (case py_index cols 3 of
        Inl e \<Rightarrow> ([], Inl e)
      | Inr c_seats \<Rightarrow>
          if c_session_id = session_id then
            (if c_seats = ''Full'' then
               ([Logged INFO MSG_UNAVAILABLE [c_seats, session_id, c_session_date]],
                Inr (Some (PInt 0, False)))
             else
               ([Logged INFO MSG_AVAILABLE [c_seats, session_id, c_session_date]],
                Inr (Some (PStr c_seats, True))))
          else scan_rows session_id rows)))"

definition isSiteAvailable :: "page \<Rightarrow> string \<Rightarrow> event list \<times> (exn + availability)" where
  "isSiteAvailable pg session_id =
     (case (case pg of Inl e \<Rightarrow> ([], Inl e) | Inr rows \<Rightarrow> scan_rows session_id rows) of
        (evs, Inl e) \<Rightarrow>
          if e = ConnectionResetError then
            (Logged INFO ''Checking availibility for session %s'' [session_id] # evs @
               [Logged ERROR ''Connection closed ... try again.'' []],
             Inr (Some (PInt 0, False)))
          else (Logged INFO ''Checking availibility for session %s'' [session_id] # evs, Inl e)
      | (evs, Inr r) \<Rightarrow>
          (Logged INFO ''Checking availibility for session %s'' [session_id] # evs, Inr r))"

subsection \<open>\<open>get_delay_mins\<close> and \<open>delay_with_update_by_min\<close>\<close>

text \<open>
  A float is finite, infinite or not a number; a finite float is read as the real
  number it denotes, on which the comparison with zero and the truncation of \<open>int\<close> are
  exact. \<open>x < 0\<close> is false for a NaN, and \<open>int(x)\<close> raises \<open>OverflowError\<close> for an infinite
  \<open>x\<close> and \<open>ValueError\<close> for a NaN.
\<close>

datatype pyfloat = Finite real | PosInf | NegInf | NaN

fun float_lt_0 :: "pyfloat \<Rightarrow> bool" where
  "float_lt_0 (Finite x) = (x < 0)"
| "float_lt_0 PosInf = False"
| "float_lt_0 NegInf = True"
| "float_lt_0 NaN = False"

fun py_int :: "pyfloat \<Rightarrow> exn + int" where
  "py_int (Finite x) = Inr (if 0 \<le> x then \<lfloor>x\<rfloor> else \<lceil>x\<rceil>)"
| "py_int PosInf = Inl OverflowError"
| "py_int NegInf = Inl OverflowError"
| "py_int NaN = Inl (ValueError ''cannot convert float NaN to integer'')"

text \<open>
  \<open>np.random.normal(loc, scale)\<close>: numpy rejects a negative \<open>scale\<close> with \<open>ValueError\<close>;
  otherwise the result is the draw of the generator, which is an input. The draw is a
  float: with large parameters it can be infinite.
\<close>

definition np_random_normal :: "(real \<Rightarrow> real \<Rightarrow> pyfloat) \<Rightarrow> real \<Rightarrow> real \<Rightarrow> exn + pyfloat" where
  "np_random_normal gen loc scale =
     (if scale < 0 then Inl (ValueError ''scale < 0'') else Inr (gen loc scale))"

text \<open>After \<open>x = 0\<close> the variable holds the integer 0, and \<open>int(0)\<close> is 0.\<close>

definition get_delay_mins :: "(real \<Rightarrow> real \<Rightarrow> pyfloat) \<Rightarrow> real \<Rightarrow> real \<Rightarrow> exn + int" where
  "get_delay_mins gen mu sigma =
     (case np_random_normal gen mu sigma of
        Inl e \<Rightarrow> Inl e
      | Inr x \<Rightarrow> if float_lt_0 x then Inr 0 else py_int x)"

text \<open>
  \<open>sigint\<close> says which call of \<open>time.sleep(60)\<close> in this delay, counted from 0, the user
  interrupts, if any.
\<close>

fun sleep_loop :: "nat option \<Rightarrow> nat \<Rightarrow> nat \<Rightarrow> event list \<times> (exn + unit)" where
  "sleep_loop sigint i 0 = ([], Inr ())"
| "sleep_loop sigint i (Suc n) =
     (if sigint = Some i then ([], Inl KeyboardInterrupt)
      else (case sleep_loop sigint (Suc i) n of (evs, r) \<Rightarrow> (Slept 60 # evs, r)))"

definition delay_with_update_by_min :: "nat option \<Rightarrow> int \<Rightarrow> event list \<times> (exn + unit)" where
  "delay_with_update_by_min sigint mins =
     (case sleep_loop sigint 0 (nat mins) of
        (evs, r) \<Rightarrow> (Logged INFO (''Waiting '' @ str_int mins @ '' mins'') [] # evs, r))"

subsection \<open>\<open>sendMessage\<close>\<close>

text \<open>
  The SMS client is an input: \<open>client.messages.create(body, from_, to)\<close> gives the
  identifier of the message or raises.
\<close>

type_synonym client = "pyval \<times> string list \<times> string \<Rightarrow> exn + string"

definition sendMessage :: "client \<Rightarrow> pyval \<Rightarrow> string list \<Rightarrow> string \<Rightarrow> event list \<times> (exn + unit)" where
  "sendMessage client msg sender recipient =
     (case client (msg, sender, recipient) of
        Inl e \<Rightarrow> ([], Inl e)
      | Inr sid \<Rightarrow> ([Sent msg sender recipient, Logged INFO (''Sent message '' @ sid) []], Inr ()))"

subsection \<open>\<open>main\<close>\<close>

text \<open>
  The parsed command line is a record; \<open>--sender\<close>, \<open>--account-id\<close> and \<open>--auth-token\<close>
  are lists (\<open>nargs='+'\<close>) or \<open>None\<close> when the option is absent.
\<close>

record args =
  args_recipients :: "string list"
  args_sender :: "string list option"
  args_account_id :: "string list option"
  args_auth_token :: "string list option"
  args_verbose :: bool
  args_log_file :: "string option"

text \<open>What one iteration of the loop meets: the page, the generator, the interrupt.\<close>

record poll =
  poll_page :: page
  poll_normal :: "real \<Rightarrow> real \<Rightarrow> pyfloat"
  poll_sigint :: "nat option"

record world =
  world_os :: os_env
  world_client :: "exn + client"
  world_polls :: "poll list"

text \<open>
  Line 252: the expression \<open>MSG_TEXT_MESSAGE % str(spots),  SESSION_ID\<close>. The operator
  \<open>%\<close> binds before the comma: the format string gets the one operand \<open>str(spots)\<close>, and
  the result would be the first component of a pair with \<open>SESSION_ID\<close>.
\<close>

definition text_message :: "pyval \<Rightarrow> exn + pyval" where
  "text_message spots =
     (case py_format MSG_TEXT_MESSAGE [py_str spots] of
        Inl e \<Rightarrow> Inl e
      | Inr text \<Rightarrow> Inr (PTuple [PStr text, PStr SESSION_ID]))"

text \<open>
  The control structure of lines 246 to 260 is written once, with the expression of
  line 252 as the parameter \<open>build\<close>; the script is its instance at \<open>text_message\<close>.
  Lines 251 to 253, the loop over the recipients: each turn evaluates the message and
  calls \<open>sendMessage\<close>, and an exception of either ends the loop.
\<close>

fun notify_loop ::
  "(pyval \<Rightarrow> exn + pyval) \<Rightarrow> client \<Rightarrow> pyval \<Rightarrow> string list \<Rightarrow> string list \<Rightarrow>
   event list \<times> (exn + unit)" where
  "notify_loop build client spots sender [] = ([], Inr ())"
| "notify_loop build client spots sender (recipient # recipients) =
     (case build spots of
        Inl e \<Rightarrow> ([], Inl e)
      | Inr message \<Rightarrow>
          (case sendMessage client message sender recipient of
             (evs, Inl e) \<Rightarrow> (evs, Inl e)
           | (evs, Inr u) \<Rightarrow>
               (case notify_loop build client spots sender recipients of
                  (evs', r) \<Rightarrow> (evs @ evs', r))))"

text \<open>
  Lines 248 to 256: the body of the inner \<open>try\<close>. Unpacking \<open>None\<close> into
  \<open>(spots, available)\<close> raises \<open>TypeError\<close>.
\<close>

definition poll_with ::
  "(pyval \<Rightarrow> exn + pyval) \<Rightarrow> client \<Rightarrow> string list \<Rightarrow> string list \<Rightarrow> poll \<Rightarrow>
   event list \<times> (exn + unit)" where
  "poll_with build client sender recipients p =
     (case isSiteAvailable (poll_page p) SESSION_ID of
        (evs, Inl e) \<Rightarrow> (evs, Inl e)
      | (evs, Inr None) \<Rightarrow> (evs, Inl TypeError)
      | (evs, Inr (Some (spots, available))) \<Rightarrow>
          (case (if available then notify_loop build client spots sender recipients
                 else ([], Inr ())) of
             (evs1, Inl e) \<Rightarrow> (evs @ evs1, Inl e)
           | (evs1, Inr u) \<Rightarrow>
               (case get_delay_mins (poll_normal p) 10 15 of
                  Inl e \<Rightarrow> (evs @ evs1, Inl e)
                | Inr delay_mins \<Rightarrow>
                    (case delay_with_update_by_min (poll_sigint p) delay_mins of
                       (evs2, r) \<Rightarrow> (evs @ evs1 @ evs2, r)))))"

text \<open>
  Lines 246 to 260: \<open>while True\<close> with its handler for \<open>KeyboardInterrupt\<close>, over the
  polls the world supplies. The loop has no exit of its own: when the supplied polls
  are used up it is still polling.
\<close>

datatype loop_result = Raised exn | SysExit int | StillPolling

fun loop_with ::
  "(pyval \<Rightarrow> exn + pyval) \<Rightarrow> client \<Rightarrow> string list \<Rightarrow> string list \<Rightarrow> poll list \<Rightarrow>
   event list \<times> loop_result" where
  "loop_with build client sender recipients [] = ([], StillPolling)"
| "loop_with build client sender recipients (p # ps) =
     (case poll_with build client sender recipients p of
        (evs, Inl e) \<Rightarrow>
          if e = KeyboardInterrupt then (evs @ [Logged INFO [] []], SysExit 0)
          else (evs, Raised e)
      | (evs, Inr u) \<Rightarrow>
          (case loop_with build client sender recipients ps of
             (evs', r) \<Rightarrow> (evs @ evs', r)))"

text \<open>The script: the loop over the recipients, one poll and the polling loop.\<close>

definition notify :: "client \<Rightarrow> pyval \<Rightarrow> string list \<Rightarrow> string list \<Rightarrow> event list \<times> (exn + unit)" where
  "notify client spots sender recipients = notify_loop text_message client spots sender recipients"

definition poll_once :: "client \<Rightarrow> string list \<Rightarrow> string list \<Rightarrow> poll \<Rightarrow> event list \<times> (exn + unit)" where
  "poll_once client sender recipients p = poll_with text_message client sender recipients p"

definition polling_loop :: "client \<Rightarrow> string list \<Rightarrow> string list \<Rightarrow> poll list \<Rightarrow> event list \<times> loop_result" where
  "polling_loop client sender recipients ps = loop_with text_message client sender recipients ps"

text \<open>Lines 239 to 260: the body of the outer \<open>try\<close>.\<close>

definition main_try :: "args \<Rightarrow> world \<Rightarrow> event list \<times> loop_result" where
  "main_try a w =
     (case setup_logger (world_os w) (args_log_file a) (args_verbose a) of
        Inl e \<Rightarrow> ([], Raised e)
      | Inr lg \<Rightarrow>
     (case args_sender a of
        None \<Rightarrow> ([], Raised TypeError)
      | Some sender \<Rightarrow>
     (case validate_e164 (args_recipients a @ sender) of
        Inl e \<Rightarrow> ([], Raised e)
      | Inr u \<Rightarrow>
     (case world_client w of
        Inl e \<Rightarrow> ([], Raised e)
      | Inr client \<Rightarrow> polling_loop client sender (args_recipients a) (world_polls w)))))"

text \<open>
  The process ends with an exit status, or with an uncaught exception (a traceback),
  or is still running when the supplied polls are used up.
\<close>

datatype outcome = Exited int | Crashed exn | Running

definition main :: "args \<Rightarrow> world \<Rightarrow> event list \<times> outcome" where
  "main a w =
     (case main_try a w of
        (evs, Raised e) \<Rightarrow>
          (case e of
             ValueError m \<Rightarrow> (evs @ [Printed (''Value error: '' @ m)], Exited 0)
           | _ \<Rightarrow> (evs, Crashed e))
      | (evs, SysExit n) \<Rightarrow> (evs, Exited n)
      | (evs, StillPolling) \<Rightarrow> (evs, Running))"

subsection \<open>Predicates of the specification\<close>

text \<open>A row matches a session identifier when it has a first cell and that cell equals it.\<close>

definition row_matches :: "string \<Rightarrow> string list \<Rightarrow> bool" where
  "row_matches session_id cols = (case cols of [] \<Rightarrow> False | c # cs \<Rightarrow> c = session_id)"

text \<open>Between 1 and 14 characters, all of them digits.\<close>

definition digits_1_14 :: "string \<Rightarrow> bool" where
  "digits_1_14 ds = (1 \<le> length ds \<and> length ds \<le> 14 \<and> list_all is_digit ds)"

subsection \<open>A concrete world\<close>

text \<open>
  The script runs in a writable directory that holds no log file yet, with two valid
  recipients, a valid sender and a client that accepts every message. A quiet poll
  draws the mean as its delay. The other file systems hold a log file that cannot be
  written, or no log file in a directory that cannot be written. The other generators
  draw below zero, above the mean, a large power of two, and infinity. The last client
  rejects the messages to one number; \<open>both_operands\<close> is a message expression that gives
  the format string its two operands.
\<close>

definition writable_os :: os_env where
  "writable_os = \<lparr>os_abspath = (\<lambda>f. ''/home/efy/'' @ f), os_dirname = (\<lambda>f. ''/home/efy''),
                   os_isfile = (\<lambda>f. False), os_access_W_OK = (\<lambda>f. True)\<rparr>"

definition readonly_os :: os_env where
  "readonly_os = \<lparr>os_abspath = (\<lambda>f. ''/srv/efy/'' @ f), os_dirname = (\<lambda>f. ''/srv/efy''),
                   os_isfile = (\<lambda>f. True), os_access_W_OK = (\<lambda>f. False)\<rparr>"

definition locked_dir_os :: os_env where
  "locked_dir_os = \<lparr>os_abspath = (\<lambda>f. ''/srv/efy/'' @ f), os_dirname = (\<lambda>f. ''/srv/efy''),
                     os_isfile = (\<lambda>f. False), os_access_W_OK = (\<lambda>f. False)\<rparr>"

definition accepting_client :: client where
  "accepting_client req = Inr ''SM0001''"

definition rejecting_client :: client where
  "rejecting_client req = Inl (OtherError ''TwilioRestException'')"

definition two_recipients :: args where
  "two_recipients = \<lparr>args_recipients = [''+16175551212'', ''+16175551213''],
                     args_sender = Some [''+16175550100''],
                     args_account_id = Some [''AC0001''],
                     args_auth_token = Some [''secret''],
                     args_verbose = False,
                     args_log_file = None\<rparr>"

definition bad_recipient :: args where
  "bad_recipient = \<lparr>args_recipients = [''6175551212''],
                    args_sender = Some [''+16175550100''],
                    args_account_id = Some [''AC0001''],
                    args_auth_token = Some [''secret''],
                    args_verbose = False,
                    args_log_file = None\<rparr>"

definition mean_draw :: "real \<Rightarrow> real \<Rightarrow> pyfloat" where
  "mean_draw mu sigma = Finite mu"

definition low_draw :: "real \<Rightarrow> real \<Rightarrow> pyfloat" where
  "low_draw mu sigma = Finite (mu - 2 * sigma)"

definition high_draw :: "real \<Rightarrow> real \<Rightarrow> pyfloat" where
  "high_draw mu sigma = Finite (mu + sigma / 2)"

definition huge_draw :: "real \<Rightarrow> real \<Rightarrow> pyfloat" where
  "huge_draw mu sigma = Finite (2 ^ 100)"

definition infinite_draw :: "real \<Rightarrow> real \<Rightarrow> pyfloat" where
  "infinite_draw mu sigma = PosInf"




definition quiet_poll :: "page \<Rightarrow> nat option \<Rightarrow> poll" where
  "quiet_poll pg sigint = \<lparr>poll_page = pg, poll_normal = mean_draw, poll_sigint = sigint\<rparr>"

definition world_of :: "poll list \<Rightarrow> world" where
  "world_of ps = \<lparr>world_os = writable_os, world_client = Inr accepting_client, world_polls = ps\<rparr>"

lemmas concrete_defs =
  main_def main_try_def setup_logger_def two_recipients_def bad_recipient_def quiet_poll_def
  world_of_def writable_os_def accepting_client_def re_match_e164_def is_digit_def is_1_9_def
  at_dollar_def poll_once_def poll_with_def polling_loop_def notify_def isSiteAvailable_def
  py_index_def SESSION_ID_def text_message_def MSG_TEXT_MESSAGE_def MSG_AVAILABLE_def
  MSG_UNAVAILABLE_def MSG_RECIPIENT_ERR_def ERROR_LOG_FILENAME_def get_delay_mins_def
  np_random_normal_def mean_draw_def delay_with_update_by_min_def str_int_def

section \<open>The notification loop\<close>

text \<open>
  \<open>MSG_TEXT_MESSAGE\<close> has two \<open>%s\<close> conversions and line 252 gives it one operand (the
  comma makes \<open>SESSION_ID\<close> the second component of a tuple, not a second operand), so
  the body of the loop raises \<open>TypeError\<close> before it reaches \<open>sendMessage\<close>.
\<close>

lemma text_message_TypeError: "text_message spots = Inl TypeError"
  by (simp add: text_message_def MSG_TEXT_MESSAGE_def)

lemma notify_TypeError:
  "recipients \<noteq> [] \<Longrightarrow> notify client spots sender recipients = ([], Inl TypeError)"
  by (cases recipients) (simp_all add: notify_def text_message_TypeError)

lemma poll_once_available_raises:
  assumes "isSiteAvailable (poll_page p) SESSION_ID = (evs, Inr (Some (spots, True)))"
      and "recipients \<noteq> []"
  shows "poll_once client sender recipients p = (evs, Inl TypeError)"
  using assms notify_TypeError[of recipients client spots sender]
  by (simp add: poll_once_def poll_with_def notify_def)

text \<open>
  C1. Claimed: in every poll in which the checker reports available with spot count
  \<open>s\<close>, the loop sends one message to each recipient, in order, with \<open>s\<close> and the session
  link in its body. On the page with the one row \<open>("UT Provo 04B", "2024-06-01", "-", "3")\<close>
  and two valid recipients the checker reports \<open>("3", True)\<close>, no message is sent and the
  process ends with an uncaught \<open>TypeError\<close>.
\<close>

theorem main_available_poll_raises_TypeError:
  "main two_recipients
        (world_of [quiet_poll (Inr [[''UT Provo 04B'', ''2024-06-01'', ''-'', ''3'']]) None]) =
     ([Logged INFO ''Checking availibility for session %s'' [''UT Provo 04B''],
       Logged INFO ''%s spots left for %s on %s'' [''3'', ''UT Provo 04B'', ''2024-06-01'']],
      Crashed TypeError)"
  by (simp add: concrete_defs)

section \<open>The availability checker\<close>

lemma scan_rows_no_match:
  "\<forall>r \<in> set rows. 4 \<le> length r \<and> r ! 0 \<noteq> session_id \<Longrightarrow>
   scan_rows session_id rows = ([], Inr None)"
  by (induction rows) (auto simp: py_index_def)

text \<open>
  C2. Claimed: for a session identifier that matches no row, the checker returns a
  defined no-match outcome and the polling loop does not crash on it. On the page with
  the one row \<open>("UT Provo 04A", "2024-06-01", "-", "3")\<close> the checker falls off the end
  of its loop and returns \<open>None\<close>; unpacking it in \<open>main\<close> raises \<open>TypeError\<close>, which no
  handler catches.
\<close>

theorem no_match_returns_None_and_main_crashes:
  "isSiteAvailable (Inr [[''UT Provo 04A'', ''2024-06-01'', ''-'', ''3'']]) SESSION_ID =
     ([Logged INFO ''Checking availibility for session %s'' [''UT Provo 04B'']], Inr None)
   \<and> main two_recipients
        (world_of [quiet_poll (Inr [[''UT Provo 04A'', ''2024-06-01'', ''-'', ''3'']]) None]) =
     ([Logged INFO ''Checking availibility for session %s'' [''UT Provo 04B'']], Crashed TypeError)"
  by (simp add: concrete_defs)

lemma scan_rows_first_match:
  "\<forall>r \<in> set pre. 4 \<le> length r \<and> r ! 0 \<noteq> session_id \<Longrightarrow> 4 \<le> length cols \<Longrightarrow>
   cols ! 0 = session_id \<Longrightarrow>
   snd (scan_rows session_id (pre @ cols # post)) =
     Inr (Some (if cols ! 3 = ''Full'' then (PInt 0, False) else (PStr (cols ! 3), True)))"
  by (induction pre) (auto simp: py_index_def)

text \<open>
  C3, as claimed: for every row whose session-id cell equals the query, the checker
  returns \<open>(0, False)\<close> if the seat cell is \<open>Full\<close> and \<open>(cell, True)\<close> otherwise. The
  checker returns at the first matching row: here the second row matches and is \<open>Full\<close>,
  and the result is \<open>("3", True)\<close>, from the first.
\<close>

theorem isSiteAvailable_later_matching_row_ignored:
  "[''UT Provo 04B'', ''2024-06-02'', ''-'', ''Full''] ! 0 = ''UT Provo 04B''
   \<and> [''UT Provo 04B'', ''2024-06-02'', ''-'', ''Full''] ! 3 = ''Full''
   \<and> snd (isSiteAvailable
            (Inr [[''UT Provo 04B'', ''2024-06-01'', ''-'', ''3''],
                  [''UT Provo 04B'', ''2024-06-02'', ''-'', ''Full'']])
            ''UT Provo 04B'') = Inr (Some (PStr ''3'', True))
   \<and> snd (isSiteAvailable
            (Inr [[''UT Provo 04B'', ''2024-06-01'', ''-'', ''3''],
                  [''UT Provo 04B'', ''2024-06-02'', ''-'', ''Full'']])
            ''UT Provo 04B'') \<noteq> Inr (Some (PInt 0, False))"
  by (simp add: isSiteAvailable_def py_index_def)

text \<open>
  C3, amended: for the first row whose session-id cell equals the query, when that row
  and every row before it have at least four cells, the checker returns \<open>(0, False)\<close> if
  the seat cell is \<open>Full\<close> and \<open>(cell, True)\<close>, with the cell text as it is, otherwise.
\<close>

theorem isSiteAvailable_first_matching_row:
  assumes "\<forall>r \<in> set pre. 4 \<le> length r \<and> r ! 0 \<noteq> session_id"
      and "4 \<le> length cols" and "cols ! 0 = session_id"
  shows "snd (isSiteAvailable (Inr (pre @ cols # post)) session_id) =
           Inr (Some (if cols ! 3 = ''Full'' then (PInt 0, False) else (PStr (cols ! 3), True)))"
  using scan_rows_first_match[OF assms, of post]
  by (cases "scan_rows session_id (pre @ cols # post)") (auto simp: isSiteAvailable_def)

theorem isSiteAvailable_first_matching_row_witness:
  "snd (isSiteAvailable
          (Inr ([[''UT Provo 04A'', ''2024-06-01'', ''-'', ''Full'']] @
                [''UT Provo 04B'', ''2024-06-01'', ''-'', ''3''] #
                [[''UT Provo 04B'', ''2024-06-02'', ''-'', ''Full'']]))
          ''UT Provo 04B'') = Inr (Some (PStr ''3'', True))
   \<and> snd (isSiteAvailable
          (Inr ([[''UT Provo 04A'', ''2024-06-01'', ''-'', ''5'']] @
                [''UT Provo 04B'', ''2024-06-01'', ''-'', ''Full''] # []))
          ''UT Provo 04B'') = Inr (Some (PInt 0, False))"
  using isSiteAvailable_first_matching_row
          [of "[[''UT Provo 04A'', ''2024-06-01'', ''-'', ''Full'']]" "''UT Provo 04B''"
              "[''UT Provo 04B'', ''2024-06-01'', ''-'', ''3'']"
              "[[''UT Provo 04B'', ''2024-06-02'', ''-'', ''Full'']]"]
        isSiteAvailable_first_matching_row
          [of "[[''UT Provo 04A'', ''2024-06-01'', ''-'', ''5'']]" "''UT Provo 04B''"
              "[''UT Provo 04B'', ''2024-06-01'', ''-'', ''Full'']" "[]"]
  by simp

lemma scan_rows_short_row:
  "j < length rows \<Longrightarrow> length (rows ! j) < 4 \<Longrightarrow>
   \<forall>i<j. \<not> row_matches session_id (rows ! i) \<Longrightarrow>
   scan_rows session_id rows = ([], Inl IndexError)"
proof (induction rows arbitrary: j)
  case Nil
  then show ?case by simp
next
  case (Cons cols rows)
  show ?case
  proof (cases "length cols < 4")
    case True
    then show ?thesis by (simp add: py_index_def)
  next
    case False
    with Cons.prems obtain j' where j: "j = Suc j'" by (cases j) auto
    from Cons.prems j have "\<not> row_matches session_id cols" by auto
    with False have ne: "cols ! 0 \<noteq> session_id"
      by (cases cols) (auto simp: row_matches_def)
    from Cons.prems j have "j' < length rows" "length (rows ! j') < 4"
      "\<forall>i<j'. \<not> row_matches session_id (rows ! i)" by auto
    then have "scan_rows session_id rows = ([], Inl IndexError)" by (rule Cons.IH)
    with False ne show ?thesis by (simp add: py_index_def)
  qed
qed

text \<open>
  C10. A row with fewer than four cells that no matching row precedes (it comes before
  the first matching row, or is it) makes the checker raise \<open>IndexError\<close>: the cells 0, 1
  and 3 of each row are read before the session identifier is compared.
\<close>

theorem short_row_raises_IndexError:
  assumes "j < length rows" and "length (rows ! j) < 4"
      and "\<forall>i<j. \<not> row_matches session_id (rows ! i)"
  shows "snd (isSiteAvailable (Inr rows) session_id) = Inl IndexError"
  using scan_rows_short_row[OF assms] by (simp add: isSiteAvailable_def)

theorem short_row_raises_IndexError_witness:
  "snd (isSiteAvailable
          (Inr [[''UT Provo 04A'', ''2024-06-01'', ''-'', ''Full''],
                [''UT Provo 04B'', ''2024-06-01'', ''3''],
                [''UT Provo 04B'', ''2024-06-02'', ''-'', ''3'']])
          ''UT Provo 04B'') = Inl IndexError"
  using short_row_raises_IndexError
          [of 1 "[[''UT Provo 04A'', ''2024-06-01'', ''-'', ''Full''],
                  [''UT Provo 04B'', ''2024-06-01'', ''3''],
                  [''UT Provo 04B'', ''2024-06-02'', ''-'', ''3'']]" "''UT Provo 04B''"]
  by (simp add: row_matches_def)

section \<open>Recipient validation\<close>

lemma digits_dollar_iff:
  "digits_dollar lo hi s \<longleftrightarrow>
     (\<exists>ds tl. s = ds @ tl \<and> list_all is_digit ds \<and> lo \<le> length ds \<and> length ds \<le> hi \<and> at_dollar tl)"
proof (induction lo hi s rule: digits_dollar.induct)
  case (1 lo hi)
  then show ?case by (auto simp: at_dollar_def)
next
  case (2 lo hi c cs)
  show ?case
  proof
    assume "digits_dollar lo hi (c # cs)"
    then consider "lo = 0" "at_dollar (c # cs)"
      | "0 < hi" "is_digit c" "digits_dollar (lo - 1) (hi - 1) cs"
      by auto
    then show "\<exists>ds tl. c # cs = ds @ tl \<and> list_all is_digit ds \<and> lo \<le> length ds \<and>
                 length ds \<le> hi \<and> at_dollar tl"
    proof cases
      case 1
      then show ?thesis by (intro exI[of _ "[]"] exI[of _ "c # cs"]) simp
    next
      case 2
      with "2.IH" obtain ds tl where "cs = ds @ tl" "list_all is_digit ds" "lo - 1 \<le> length ds"
        "length ds \<le> hi - 1" "at_dollar tl" by auto
      with 2 show ?thesis by (intro exI[of _ "c # ds"] exI[of _ tl]) auto
    qed
  next
    assume "\<exists>ds tl. c # cs = ds @ tl \<and> list_all is_digit ds \<and> lo \<le> length ds \<and>
              length ds \<le> hi \<and> at_dollar tl"
    then obtain ds tl where *: "c # cs = ds @ tl" "list_all is_digit ds" "lo \<le> length ds"
        "length ds \<le> hi" "at_dollar tl" by auto
    show "digits_dollar lo hi (c # cs)"
    proof (cases ds)
      case Nil
      with * have "lo = 0" "at_dollar (c # cs)" by auto
      then show ?thesis by simp
    next
      case (Cons d ds')
      with * have "0 < hi" "is_digit c" "cs = ds' @ tl" "list_all is_digit ds'"
        "lo - 1 \<le> length ds'" "length ds' \<le> hi - 1"
        by auto
      with * "2.IH" show ?thesis by auto
    qed
  qed
qed

lemma digits_dollar_1_14:
  "digits_dollar 1 14 rest \<longleftrightarrow>
     digits_1_14 rest \<or> (\<exists>ds. rest = ds @ [CHR 0x0A] \<and> digits_1_14 ds)"
proof
  assume "digits_dollar 1 14 rest"
  then obtain ds tl where "rest = ds @ tl" "list_all is_digit ds" "1 \<le> length ds"
    "length ds \<le> 14" "tl = [] \<or> tl = [CHR 0x0A]"
    unfolding digits_dollar_iff at_dollar_def by blast
  then show "digits_1_14 rest \<or> (\<exists>ds. rest = ds @ [CHR 0x0A] \<and> digits_1_14 ds)"
    unfolding digits_1_14_def by auto
next
  assume "digits_1_14 rest \<or> (\<exists>ds. rest = ds @ [CHR 0x0A] \<and> digits_1_14 ds)"
  then show "digits_dollar 1 14 rest"
  proof
    assume "digits_1_14 rest"
    then have "rest = rest @ [] \<and> list_all is_digit rest \<and> 1 \<le> length rest \<and>
               length rest \<le> 14 \<and> at_dollar []"
      by (simp add: digits_1_14_def at_dollar_def)
    then show ?thesis unfolding digits_dollar_iff by blast
  next
    assume "\<exists>ds. rest = ds @ [CHR 0x0A] \<and> digits_1_14 ds"
    then obtain ds where "rest = ds @ [CHR 0x0A]" "digits_1_14 ds" by blast
    then have "rest = ds @ [CHR 0x0A] \<and> list_all is_digit ds \<and> 1 \<le> length ds \<and>
               length ds \<le> 14 \<and> at_dollar [CHR 0x0A]"
      by (simp add: digits_1_14_def at_dollar_def)
    then show ?thesis unfolding digits_dollar_iff by blast
  qed
qed

lemma e164_shape_Cons2:
  "e164_shape (p # d # ds) \<longleftrightarrow> p = CHR ''+'' \<and> is_1_9 d \<and> digits_1_14 ds"
  by (simp add: e164_shape_def digits_1_14_def)

lemma e164_shape_min: "e164_shape t \<Longrightarrow> \<exists>p d c ds. t = p # d # c # ds"
  by (cases t rule: list.exhaust; simp add: e164_shape_def split: list.splits)
     (metis Suc_le_length_iff)

text \<open>
  What the pattern accepts among the strings of the model (code points below 256): the
  strings of the E.164 shape, and those strings followed by one newline. Python's \<open>\d\<close>
  also matches the decimal digits of other scripts, which lie above that range.
\<close>

lemma re_match_e164_iff:
  "re_match_e164 s \<longleftrightarrow> e164_shape s \<or> (\<exists>t. s = t @ [CHR 0x0A] \<and> e164_shape t)"
proof (cases "\<exists>p d rest. s = p # d # rest")
  case False
  then have "\<not> re_match_e164 s" "\<not> e164_shape s"
    by (auto simp: re_match_e164_def e164_shape_def split: list.splits)
  moreover have "\<not> (\<exists>t. s = t @ [CHR 0x0A] \<and> e164_shape t)"
  proof
    assume "\<exists>t. s = t @ [CHR 0x0A] \<and> e164_shape t"
    then obtain t where t: "s = t @ [CHR 0x0A]" "e164_shape t" by blast
    from e164_shape_min[OF t(2)] obtain p d c ds where "t = p # d # c # ds" by blast
    with t(1) False show False by simp
  qed
  ultimately show ?thesis by blast
next
  case True
  then obtain p d rest where s: "s = p # d # rest" by blast
  have m: "re_match_e164 s \<longleftrightarrow> p = CHR ''+'' \<and> is_1_9 d \<and> digits_dollar 1 14 rest"
    by (simp add: s re_match_e164_def)
  have nl: "(\<exists>t. s = t @ [CHR 0x0A] \<and> e164_shape t) \<longleftrightarrow>
            p = CHR ''+'' \<and> is_1_9 d \<and> (\<exists>ds. rest = ds @ [CHR 0x0A] \<and> digits_1_14 ds)"
  proof
    assume "\<exists>t. s = t @ [CHR 0x0A] \<and> e164_shape t"
    then obtain t where t: "s = t @ [CHR 0x0A]" "e164_shape t" by blast
    from e164_shape_min[OF t(2)] obtain p' d' c ds where t': "t = p' # d' # c # ds" by blast
    with t(1) s have "p' = p" "d' = d" "rest = (c # ds) @ [CHR 0x0A]" by simp_all
    moreover from t(2) t' have "p' = CHR ''+''" "is_1_9 d'" "digits_1_14 (c # ds)"
      by (simp_all add: e164_shape_Cons2)
    ultimately show "p = CHR ''+'' \<and> is_1_9 d \<and> (\<exists>ds. rest = ds @ [CHR 0x0A] \<and> digits_1_14 ds)"
      by blast
  next
    assume a: "p = CHR ''+'' \<and> is_1_9 d \<and> (\<exists>ds. rest = ds @ [CHR 0x0A] \<and> digits_1_14 ds)"
    then obtain ds where "rest = ds @ [CHR 0x0A]" "digits_1_14 ds" by blast
    with a s have "s = (p # d # ds) @ [CHR 0x0A]" "e164_shape (p # d # ds)"
      by (simp_all add: e164_shape_Cons2)
    then show "\<exists>t. s = t @ [CHR 0x0A] \<and> e164_shape t" by blast
  qed
  have sh: "e164_shape s \<longleftrightarrow> p = CHR ''+'' \<and> is_1_9 d \<and> digits_1_14 rest"
    by (simp add: s e164_shape_Cons2)
  show ?thesis
    unfolding m nl sh digits_dollar_1_14 by blast
qed

lemma py_format_recipient_err:
  "py_format MSG_RECIPIENT_ERR [r] =
     Inr (''Invalid recipient number '' @ r @ ''. Recipient should be formatted with a '' @
          [CHR 0x27] @ ''+'' @ [CHR 0x27] @ '' '' @
          ''and country code e.g., +16175551212 (E.164 format).'')"
  by (simp add: MSG_RECIPIENT_ERR_def)

lemma validate_e164_raises:
  "validate_e164 xs = Inl e \<Longrightarrow> \<exists>m. e = ValueError m"
  by (induction xs) (auto simp: py_format_recipient_err split: if_splits)

lemma validate_e164_ok_iff: "validate_e164 xs = Inr () \<longleftrightarrow> list_all re_match_e164 xs"
  by (induction xs) (auto simp: py_format_recipient_err)

text \<open>The five numbers of the specification are accepted and rejected as it says.\<close>

lemma validate_e164_examples:
  "validate_e164 [''+16175551212''] = Inr ()"
  "validate_e164 [''+123456789012345''] = Inr ()"
  "validate_e164 [''6175551212''] \<noteq> Inr ()"
  "validate_e164 [''+0175551212''] \<noteq> Inr ()"
  "validate_e164 [''+1234567890123456''] \<noteq> Inr ()"
  by (simp_all add: re_match_e164_def is_digit_def is_1_9_def at_dollar_def MSG_RECIPIENT_ERR_def)

text \<open>
  C4. Claimed: validation accepts exactly the strings made of a leading \<open>+\<close>, a nonzero
  first digit and 2 to 15 digits in all, and raises \<open>ValueError\<close> for every other
  string. The number \<open>+16175551212\<close> followed by a newline is not of that shape, and
  validation accepts it: \<open>$\<close> also matches just before a final newline.
\<close>

theorem validate_e164_accepts_trailing_newline:
  "validate_e164 [''+16175551212'' @ [CHR 0x0A]] = Inr ()
   \<and> \<not> e164_shape (''+16175551212'' @ [CHR 0x0A])"
  by (simp add: re_match_e164_def e164_shape_def is_digit_def is_1_9_def at_dollar_def)

section \<open>The delay\<close>

text \<open>
  C5, as claimed: for every mean, every standard deviation and every draw the result
  is a non-negative integer. With the parameters \<open>1e308\<close> and \<open>1e308\<close> the draw can be
  infinite, and \<open>int\<close> raises \<open>OverflowError\<close> on it; with a negative standard deviation
  numpy raises \<open>ValueError\<close>. In both cases no integer is returned.
\<close>

theorem get_delay_mins_raises_on_infinite_draw:
  "get_delay_mins infinite_draw (10 ^ 308) (10 ^ 308) = Inl OverflowError
   \<and> get_delay_mins mean_draw 10 (- 1) = Inl (ValueError ''scale < 0'')"
  by (simp add: get_delay_mins_def np_random_normal_def infinite_draw_def)

text \<open>
  C5, amended: for every mean, every non-negative standard deviation and every finite
  draw of the generator, \<open>get_delay_mins\<close> returns a non-negative integer: zero for a
  negative draw, the draw truncated to an integer otherwise, with no clamp from above.
\<close>

theorem get_delay_mins_finite_draw:
  assumes "0 \<le> sigma" and "gen mu sigma = Finite x"
  shows "\<exists>n. get_delay_mins gen mu sigma = Inr n \<and> 0 \<le> n
             \<and> (x < 0 \<longrightarrow> n = 0) \<and> (0 \<le> x \<longrightarrow> n = \<lfloor>x\<rfloor>)"
  using assms by (auto simp: get_delay_mins_def np_random_normal_def)

theorem get_delay_mins_finite_draw_witness:
  "(0::real) \<le> 15
   \<and> low_draw 10 15 = Finite (- 20) \<and> get_delay_mins low_draw 10 15 = Inr 0
   \<and> high_draw 10 15 = Finite (35 / 2) \<and> get_delay_mins high_draw 10 15 = Inr 17
   \<and> huge_draw 10 15 = Finite (2 ^ 100) \<and> get_delay_mins huge_draw 10 15 = Inr (2 ^ 100)"
proof -
  have s: "(0::real) \<le> 15" by simp
  have l: "low_draw 10 15 = Finite (- 20)" by (simp add: low_draw_def)
  have h: "high_draw 10 15 = Finite (35 / 2)" by (simp add: high_draw_def)
  have g: "huge_draw 10 15 = Finite (2 ^ 100)" by (simp add: huge_draw_def)
  have f: "\<lfloor>(35::real) / 2\<rfloor> = 17" by simp
  have p: "\<lfloor>(2::real) ^ 100\<rfloor> = 2 ^ 100"
    using floor_of_int[of "2 ^ 100", where ?'a = real] by simp
  from get_delay_mins_finite_draw
         [where gen = low_draw and mu = 10 and sigma = 15 and x = "- 20", OF s l]
  have "get_delay_mins low_draw 10 15 = Inr 0"
    by auto
  moreover from get_delay_mins_finite_draw
         [where gen = high_draw and mu = 10 and sigma = 15 and x = "35 / 2", OF s h] f
  have "get_delay_mins high_draw 10 15 = Inr 17"
    by auto
  moreover from get_delay_mins_finite_draw
         [where gen = huge_draw and mu = 10 and sigma = 15 and x = "2 ^ 100", OF s g] p
  have "get_delay_mins huge_draw 10 15 = Inr (2 ^ 100)"
    by auto
  ultimately show ?thesis using s l h g by blast
qed

lemma sleep_loop_completes:
  "\<forall>k. sigint = Some k \<longrightarrow> k < i \<or> i + n \<le> k \<Longrightarrow>
   sleep_loop sigint i n = (replicate n (Slept 60), Inr ())"
proof (induction n arbitrary: i)
  case 0
  then show ?case by simp
next
  case (Suc n)
  from Suc.prems have "sigint \<noteq> Some i" by auto
  moreover from Suc.prems have "\<forall>k. sigint = Some k \<longrightarrow> k < Suc i \<or> Suc i + n \<le> k"
    by auto
  then have "sleep_loop sigint (Suc i) n = (replicate n (Slept 60), Inr ())" by (rule Suc.IH)
  ultimately show ?case by simp
qed

lemma sleep_loop_interrupted:
  "i \<le> k \<Longrightarrow> k < i + n \<Longrightarrow>
   sleep_loop (Some k) i n = (replicate (k - i) (Slept 60), Inl KeyboardInterrupt)"
proof (induction n arbitrary: i)
  case 0
  then show ?case by simp
next
  case (Suc n)
  show ?case
  proof (cases "k = i")
    case True
    then show ?thesis by simp
  next
    case False
    with Suc.prems have "Suc i \<le> k" "k < Suc i + n" by auto
    then have "sleep_loop (Some k) (Suc i) n =
                 (replicate (k - Suc i) (Slept 60), Inl KeyboardInterrupt)"
      by (rule Suc.IH)
    moreover from \<open>Suc i \<le> k\<close> have "k - i = Suc (k - Suc i)" by simp
    ultimately show ?thesis using False by simp
  qed
qed



section \<open>The polling loop\<close>

lemma polling_loop_Nil [simp]: "polling_loop client sender recipients [] = ([], StillPolling)"
  by (simp add: polling_loop_def)

lemma polling_loop_Cons [simp]:
  "polling_loop client sender recipients (p # ps) =
     (case poll_once client sender recipients p of
        (evs, Inl e) \<Rightarrow>
          if e = KeyboardInterrupt then (evs @ [Logged INFO [] []], SysExit 0)
          else (evs, Raised e)
      | (evs, Inr u) \<Rightarrow>
          (case polling_loop client sender recipients ps of
             (evs', r) \<Rightarrow> (evs @ evs', r)))"
  unfolding polling_loop_def poll_once_def by simp


lemma polling_loop_continue:
  "snd (poll_once client sender recipients p) = Inr () \<Longrightarrow>
   polling_loop client sender recipients (p # ps) =
     (fst (poll_once client sender recipients p) @ fst (polling_loop client sender recipients ps),
      snd (polling_loop client sender recipients ps))"
  by (cases "poll_once client sender recipients p") (auto split: prod.splits)

lemma poll_once_logs: "fst (poll_once client sender recipients p) \<noteq> []"
  by (auto simp: poll_once_def poll_with_def isSiteAvailable_def
           split: sum.splits prod.splits option.splits if_splits)

lemma polling_loop_logs: "fst (polling_loop client sender recipients (p # ps)) \<noteq> []"
  using poll_once_logs[of client sender recipients p]
  by (cases "poll_once client sender recipients p") (auto split: prod.splits sum.splits)

lemma polling_loop_interrupt:
  "\<forall>q \<in> set qs. snd (poll_once client sender recipients q) = Inr () \<Longrightarrow>
   snd (poll_once client sender recipients p) = Inl KeyboardInterrupt \<Longrightarrow>
   snd (polling_loop client sender recipients (qs @ p # ps)) = SysExit 0 \<and>
   last (fst (polling_loop client sender recipients (qs @ p # ps))) = Logged INFO [] []"
proof (induction qs)
  case Nil
  then show ?case by (cases "poll_once client sender recipients p") auto
next
  case (Cons q qs)
  then have ih: "snd (polling_loop client sender recipients (qs @ p # ps)) = SysExit 0"
    "last (fst (polling_loop client sender recipients (qs @ p # ps))) = Logged INFO [] []"
    by auto
  from Cons.prems have q: "snd (poll_once client sender recipients q) = Inr ()" by simp
  have ne: "fst (polling_loop client sender recipients (qs @ p # ps)) \<noteq> []"
    using polling_loop_logs by (cases qs) auto
  show ?case
    using ih ne polling_loop_continue[OF q, of "qs @ p # ps"] by simp
qed




section \<open>Delivery failures\<close>



lemma sendMessage_raises:
  "client (msg, sender, recipient) = Inl e \<Longrightarrow>
   sendMessage client msg sender recipient = ([], Inl e)"
  by (simp add: sendMessage_def)




section \<open>Exit status and start-up\<close>

text \<open>
  C8. With the logger set up and a sender given: when validation of the recipients and
  the sender raises, \<open>main\<close> prints the error and exits with status 0, and the only
  event is that print, so no poll was made; when a poll of the loop raises
  \<open>KeyboardInterrupt\<close>, after any number of completed polls, \<open>main\<close> logs it and exits
  with status 0.
\<close>

theorem main_exits_0_on_invalid_recipient_and_interrupt:
  assumes "setup_logger (world_os w) (args_log_file a) (args_verbose a) = Inr lg"
      and "args_sender a = Some sender"
  shows "(validate_e164 (args_recipients a @ sender) = Inl e \<longrightarrow>
            (\<exists>m. e = ValueError m \<and> main a w = ([Printed (''Value error: '' @ m)], Exited 0)))
       \<and> (validate_e164 (args_recipients a @ sender) = Inr () \<and> world_client w = Inr client
            \<and> world_polls w = qs @ p # ps
            \<and> (\<forall>q \<in> set qs. snd (poll_once client sender (args_recipients a) q) = Inr ())
            \<and> snd (poll_once client sender (args_recipients a) p) = Inl KeyboardInterrupt \<longrightarrow>
          snd (main a w) = Exited 0 \<and> last (fst (main a w)) = Logged INFO [] [])"
proof (intro conjI impI)
  assume v: "validate_e164 (args_recipients a @ sender) = Inl e"
  then obtain m where m: "e = ValueError m"
    using validate_e164_raises by blast
  with v assms have "main a w = ([Printed (''Value error: '' @ m)], Exited 0)"
    by (simp add: main_def main_try_def)
  with m show "\<exists>m. e = ValueError m \<and> main a w = ([Printed (''Value error: '' @ m)], Exited 0)"
    by blast
next
  assume h: "validate_e164 (args_recipients a @ sender) = Inr () \<and> world_client w = Inr client
            \<and> world_polls w = qs @ p # ps
            \<and> (\<forall>q \<in> set qs. snd (poll_once client sender (args_recipients a) q) = Inr ())
            \<and> snd (poll_once client sender (args_recipients a) p) = Inl KeyboardInterrupt"
  then have t: "main_try a w = polling_loop client sender (args_recipients a) (qs @ p # ps)"
    using assms by (simp add: main_try_def)
  from h have "snd (polling_loop client sender (args_recipients a) (qs @ p # ps)) = SysExit 0 \<and>
     last (fst (polling_loop client sender (args_recipients a) (qs @ p # ps))) = Logged INFO [] []"
    by (intro polling_loop_interrupt) auto
  with t show "snd (main a w) = Exited 0" "last (fst (main a w)) = Logged INFO [] []"
    by (cases "polling_loop client sender (args_recipients a) (qs @ p # ps)"; simp add: main_def)+
qed

lemma setup_logger_writable:
  "setup_logger writable_os None False =
     Inr \<lparr>rl_handlers = [\<lparr>fh_path = ''/home/efy/check-efy.log'', fh_level = WARNING\<rparr>],
          rl_level = INFO\<rparr>"
  by (simp add: setup_logger_def writable_os_def ERROR_LOG_FILENAME_def)

lemma full_poll_completes:
  "snd (poll_once accepting_client [''+16175550100''] [''+16175551212'', ''+16175551213'']
         (quiet_poll (Inr [[''UT Provo 04B'', ''2024-06-01'', ''-'', ''Full'']]) None)) = Inr ()"
  by (simp add: concrete_defs sleep_loop_completes)

lemma full_poll_interrupted:
  "snd (poll_once accepting_client [''+16175550100''] [''+16175551212'', ''+16175551213'']
         (quiet_poll (Inr [[''UT Provo 04B'', ''2024-06-01'', ''-'', ''Full'']]) (Some 2))) =
     Inl KeyboardInterrupt"
  by (simp add: concrete_defs sleep_loop_interrupted)

lemma bad_recipient_raises:
  "validate_e164 ([''6175551212''] @ [''+16175550100'']) =
     Inl (ValueError (''Invalid recipient number 6175551212'' @
                      ''. Recipient should be formatted with a '' @ [CHR 0x27] @ ''+'' @
                      [CHR 0x27] @ '' and country code e.g., +16175551212 (E.164 format).''))"
  by (simp add: concrete_defs)

lemma two_recipients_valid:
  "validate_e164 ([''+16175551212'', ''+16175551213''] @ [''+16175550100'']) = Inr ()"
  by (simp add: concrete_defs)

theorem main_exits_0_on_invalid_recipient_and_interrupt_witness:
  "validate_e164 (args_recipients bad_recipient @ [''+16175550100'']) =
     Inl (ValueError (''Invalid recipient number 6175551212'' @
                      ''. Recipient should be formatted with a '' @ [CHR 0x27] @ ''+'' @
                      [CHR 0x27] @ '' and country code e.g., +16175551212 (E.164 format).''))
   \<and> main bad_recipient
        (world_of [quiet_poll (Inr [[''UT Provo 04B'', ''2024-06-01'', ''-'', ''3'']]) None]) =
       ([Printed (''Value error: '' @ ''Invalid recipient number 6175551212'' @
                  ''. Recipient should be formatted with a '' @ [CHR 0x27] @ ''+'' @
                  [CHR 0x27] @ '' and country code e.g., +16175551212 (E.164 format).'')],
        Exited 0)
   \<and> validate_e164 (args_recipients two_recipients @ [''+16175550100'']) = Inr ()
   \<and> snd (poll_once accepting_client [''+16175550100''] (args_recipients two_recipients)
            (quiet_poll (Inr [[''UT Provo 04B'', ''2024-06-01'', ''-'', ''Full'']]) None)) = Inr ()
   \<and> snd (poll_once accepting_client [''+16175550100''] (args_recipients two_recipients)
            (quiet_poll (Inr [[''UT Provo 04B'', ''2024-06-01'', ''-'', ''Full'']]) (Some 2))) =
       Inl KeyboardInterrupt
   \<and> snd (main two_recipients
            (world_of [quiet_poll (Inr [[''UT Provo 04B'', ''2024-06-01'', ''-'', ''Full'']]) None,
                       quiet_poll (Inr [[''UT Provo 04B'', ''2024-06-01'', ''-'', ''Full'']]) (Some 2),
                       quiet_poll (Inr [[''UT Provo 04B'', ''2024-06-01'', ''-'', ''3'']]) None])) =
       Exited 0
   \<and> last (fst (main two_recipients
            (world_of [quiet_poll (Inr [[''UT Provo 04B'', ''2024-06-01'', ''-'', ''Full'']]) None,
                       quiet_poll (Inr [[''UT Provo 04B'', ''2024-06-01'', ''-'', ''Full'']]) (Some 2),
                       quiet_poll (Inr [[''UT Provo 04B'', ''2024-06-01'', ''-'', ''3'']]) None]))) =
       Logged INFO [] []"
proof -
  have bad: "validate_e164 (args_recipients bad_recipient @ [''+16175550100'']) =
     Inl (ValueError (''Invalid recipient number 6175551212'' @
                      ''. Recipient should be formatted with a '' @ [CHR 0x27] @ ''+'' @
                      [CHR 0x27] @ '' and country code e.g., +16175551212 (E.164 format).''))"
    using bad_recipient_raises by (simp add: bad_recipient_def)
  have good: "validate_e164 (args_recipients two_recipients @ [''+16175550100'']) = Inr ()"
    using two_recipients_valid by (simp add: two_recipients_def)
  have ok: "snd (poll_once accepting_client [''+16175550100''] (args_recipients two_recipients)
            (quiet_poll (Inr [[''UT Provo 04B'', ''2024-06-01'', ''-'', ''Full'']]) None)) = Inr ()"
    using full_poll_completes by (simp add: two_recipients_def)
  have int: "snd (poll_once accepting_client [''+16175550100''] (args_recipients two_recipients)
            (quiet_poll (Inr [[''UT Provo 04B'', ''2024-06-01'', ''-'', ''Full'']]) (Some 2))) =
       Inl KeyboardInterrupt"
    using full_poll_interrupted by (simp add: two_recipients_def)
  have su: "setup_logger (world_os (world_of ps)) (args_log_file bad_recipient)
              (args_verbose bad_recipient) =
            Inr \<lparr>rl_handlers = [\<lparr>fh_path = ''/home/efy/check-efy.log'', fh_level = WARNING\<rparr>],
                 rl_level = INFO\<rparr>"
       "setup_logger (world_os (world_of ps)) (args_log_file two_recipients)
              (args_verbose two_recipients) =
            Inr \<lparr>rl_handlers = [\<lparr>fh_path = ''/home/efy/check-efy.log'', fh_level = WARNING\<rparr>],
                 rl_level = INFO\<rparr>" for ps
    using setup_logger_writable by (simp_all add: world_of_def bad_recipient_def two_recipients_def)
  have se: "args_sender bad_recipient = Some [''+16175550100'']"
           "args_sender two_recipients = Some [''+16175550100'']"
    by (simp_all add: bad_recipient_def two_recipients_def)
  have wc: "world_client (world_of ps) = Inr accepting_client" "world_polls (world_of ps) = ps" for ps
    by (simp_all add: world_of_def)
  note first = main_exits_0_on_invalid_recipient_and_interrupt
      [where w = "world_of [quiet_poll (Inr [[''UT Provo 04B'', ''2024-06-01'', ''-'', ''3'']]) None]"
         and a = bad_recipient
         and e = "ValueError (''Invalid recipient number 6175551212'' @
                      ''. Recipient should be formatted with a '' @ [CHR 0x27] @ ''+'' @
                      [CHR 0x27] @ '' and country code e.g., +16175551212 (E.164 format).'')",
       OF su(1) se(1)]
  note second = main_exits_0_on_invalid_recipient_and_interrupt
      [where w = "world_of
                    [quiet_poll (Inr [[''UT Provo 04B'', ''2024-06-01'', ''-'', ''Full'']]) None,
                     quiet_poll (Inr [[''UT Provo 04B'', ''2024-06-01'', ''-'', ''Full'']]) (Some 2),
                     quiet_poll (Inr [[''UT Provo 04B'', ''2024-06-01'', ''-'', ''3'']]) None]"
         and a = two_recipients
         and client = accepting_client
         and qs = "[quiet_poll (Inr [[''UT Provo 04B'', ''2024-06-01'', ''-'', ''Full'']]) None]"
         and p = "quiet_poll (Inr [[''UT Provo 04B'', ''2024-06-01'', ''-'', ''Full'']]) (Some 2)"
         and ps = "[quiet_poll (Inr [[''UT Provo 04B'', ''2024-06-01'', ''-'', ''3'']]) None]",
       OF su(2) se(2)]
  from first bad have b: "main bad_recipient
        (world_of [quiet_poll (Inr [[''UT Provo 04B'', ''2024-06-01'', ''-'', ''3'']]) None]) =
       ([Printed (''Value error: '' @ ''Invalid recipient number 6175551212'' @
                  ''. Recipient should be formatted with a '' @ [CHR 0x27] @ ''+'' @
                  [CHR 0x27] @ '' and country code e.g., +16175551212 (E.164 format).'')],
        Exited 0)"
    by simp
  from second good ok int wc have i: "snd (main two_recipients
            (world_of [quiet_poll (Inr [[''UT Provo 04B'', ''2024-06-01'', ''-'', ''Full'']]) None,
                       quiet_poll (Inr [[''UT Provo 04B'', ''2024-06-01'', ''-'', ''Full'']]) (Some 2),
                       quiet_poll (Inr [[''UT Provo 04B'', ''2024-06-01'', ''-'', ''3'']]) None])) =
       Exited 0
   \<and> last (fst (main two_recipients
            (world_of [quiet_poll (Inr [[''UT Provo 04B'', ''2024-06-01'', ''-'', ''Full'']]) None,
                       quiet_poll (Inr [[''UT Provo 04B'', ''2024-06-01'', ''-'', ''Full'']]) (Some 2),
                       quiet_poll (Inr [[''UT Provo 04B'', ''2024-06-01'', ''-'', ''3'']]) None]))) =
       Logged INFO [] []"
    by simp
  from bad b good ok int i show ?thesis by blast
qed

text \<open>
  C9. When the resolved log file exists and cannot be written, or does not exist and
  its directory cannot be written, \<open>err_handler\<close> is never assigned and \<open>setup_logger\<close>
  raises \<open>UnboundLocalError\<close> where it adds the handler.
\<close>

theorem setup_logger_unwritable_raises:
  assumes "err_log_path =
             os_abspath os (case log_file of None \<Rightarrow> ERROR_LOG_FILENAME | Some f \<Rightarrow> f)"
      and "(os_isfile os err_log_path \<and> \<not> os_access_W_OK os err_log_path) \<or>
           (\<not> os_isfile os err_log_path \<and> \<not> os_access_W_OK os (os_dirname os err_log_path))"
  shows "setup_logger os log_file verbose = Inl UnboundLocalError"
  using assms by (auto simp: setup_logger_def Let_def split: option.splits)

theorem setup_logger_unwritable_raises_witness:
  "os_isfile readonly_os ''/srv/efy/check-efy.log''
   \<and> \<not> os_access_W_OK readonly_os ''/srv/efy/check-efy.log''
   \<and> setup_logger readonly_os None False = Inl UnboundLocalError
   \<and> \<not> os_isfile locked_dir_os ''/srv/efy/efy.log''
   \<and> \<not> os_access_W_OK locked_dir_os (os_dirname locked_dir_os ''/srv/efy/efy.log'')
   \<and> setup_logger locked_dir_os (Some ''efy.log'') True = Inl UnboundLocalError"
  using setup_logger_unwritable_raises
          [of "''/srv/efy/check-efy.log''" readonly_os None False]
        setup_logger_unwritable_raises
          [of "''/srv/efy/efy.log''" locked_dir_os "Some ''efy.log''" True]
  by (simp add: readonly_os_def locked_dir_os_def ERROR_LOG_FILENAME_def)

end
